theory Spec2Isabelle
  imports Main "HOL-Library.Sublist"
begin

section \<open>Exceptions (utils/exceptions.py)\<close>

text \<open>
  An exception is a value carrying its final message, that is what \<^verbatim>\<open>str(e)\<close> returns.
  \<open>builtin\<close> holds Python's own exceptions (subclasses of \<^verbatim>\<open>Exception\<close> outside the
  tool's family): the two classes the code catches by name, and one constructor for
  every other class. The first six constructors of \<open>exn\<close> are the classes of
  \<^verbatim>\<open>utils/exceptions.py\<close>.
\<close>

datatype builtin =
    FileNotFoundError string
  | PermissionError string
  | OtherException string

datatype exn =
    OCRToolError string
  | APIError string
  | ConfigurationError string
  | FileError string
  | UnsupportedFileTypeError string
  | InvalidInputError string
  | Builtin builtin

text \<open>\<^verbatim>\<open>str(e)\<close>.\<close>

fun str_of_builtin :: "builtin \<Rightarrow> string" where
  "str_of_builtin (FileNotFoundError m) = m"
| "str_of_builtin (PermissionError m) = m"
| "str_of_builtin (OtherException m) = m"

fun str_of :: "exn \<Rightarrow> string" where
  "str_of (OCRToolError m) = m"
| "str_of (APIError m) = m"
| "str_of (ConfigurationError m) = m"
| "str_of (FileError m) = m"
| "str_of (UnsupportedFileTypeError m) = m"
| "str_of (InvalidInputError m) = m"
| "str_of (Builtin b) = str_of_builtin b"

text \<open>\<^verbatim>\<open>isinstance(e, OCRToolError)\<close>: what \<^verbatim>\<open>except OCRToolError\<close> catches.\<close>

fun is_OCRToolError :: "exn \<Rightarrow> bool" where
  "is_OCRToolError (Builtin b) = False"
| "is_OCRToolError e = True"

text \<open>\<^verbatim>\<open>isinstance(e, FileError)\<close>: \<open>UnsupportedFileTypeError\<close> derives from \<open>FileError\<close>.\<close>

fun is_FileError :: "exn \<Rightarrow> bool" where
  "is_FileError (FileError m) = True"
| "is_FileError (UnsupportedFileTypeError m) = True"
| "is_FileError e = False"

text \<open>
  The constructors that build their message: \<^verbatim>\<open>FileError(message, file_path)\<close> appends
  the path when one is given, \<^verbatim>\<open>UnsupportedFileTypeError(file_path)\<close> calls it with a
  fixed message.
\<close>

definition new_FileError :: "string \<Rightarrow> string \<Rightarrow> exn" where
  "new_FileError message file_path =
     FileError (message @ (if file_path \<noteq> [] then '' (Path: '' @ file_path @ '')'' else []))"

definition new_UnsupportedFileTypeError :: "string \<Rightarrow> exn" where
  "new_UnsupportedFileTypeError file_path =
     UnsupportedFileTypeError
       (''Unsupported file type'' @ (if file_path \<noteq> [] then '' (Path: '' @ file_path @ '')'' else []))"

section \<open>Strings and constants (utils/constants.py)\<close>

text \<open>
  A string is a list of characters. \<open>str_lower\<close> is \<^verbatim>\<open>str.lower()\<close> on the ASCII
  letters, which are the only letters of the extensions it is compared with.
\<close>

definition char_lower :: "char \<Rightarrow> char" where
  "char_lower c =
     (case map_of (zip ''ABCDEFGHIJKLMNOPQRSTUVWXYZ'' ''abcdefghijklmnopqrstuvwxyz'') c of
        Some l \<Rightarrow> l
      | None \<Rightarrow> c)"

definition str_lower :: "string \<Rightarrow> string" where
  "str_lower s = map char_lower s"

definition URL_PREFIXES :: "string list" where
  "URL_PREFIXES = [''http://'', ''https://'']"

definition SUPPORTED_EXTENSIONS :: "string list" where
  "SUPPORTED_EXTENSIONS = [''.pdf'', ''.png'', ''.jpg'', ''.jpeg'', ''.tiff'', ''.tif'', ''.bmp'']"

definition is_url :: "string \<Rightarrow> bool" where
  "is_url path = list_ex (\<lambda>p. prefix p path) URL_PREFIXES"

definition is_supported_file :: "string \<Rightarrow> bool" where
  "is_supported_file path = list_ex (\<lambda>ext. suffix ext (str_lower path)) SUPPORTED_EXTENSIONS"

section \<open>Paths and the file system (os.path, os.listdir)\<close>

text \<open>
  \<^verbatim>\<open>os.path.join(a, b)\<close> and \<^verbatim>\<open>os.path.basename(p)\<close> of a POSIX system, on two
  arguments.
\<close>

definition os_path_join :: "string \<Rightarrow> string \<Rightarrow> string" where
  "os_path_join a b =
     (if prefix ''/'' b then b
      else if a = [] \<or> suffix ''/'' a then a @ b
      else a @ ''/'' @ b)"

definition os_path_basename :: "string \<Rightarrow> string" where
  "os_path_basename p = rev (takeWhile (\<lambda>c. c \<noteq> CHR ''/'') (rev p))"

text \<open>
  What the dispatcher reads of the file system: the two existence tests, which never
  raise, and the listing of a directory, which raises one of Python's own exceptions
  (an \<^verbatim>\<open>OSError\<close>) when the directory cannot be read.
\<close>

record filesystem =
  isfile :: "string \<Rightarrow> bool"
  isdir :: "string \<Rightarrow> bool"
  listdir :: "string \<Rightarrow> builtin + string list"

section \<open>The OCR service (ocr/ocr_service.py)\<close>

text \<open>
  The values of a response dictionary, and the dictionary itself as the list of its
  items in insertion order. \<open>'r\<close> is the type of the OCR result, which the service
  stores and never inspects.
\<close>

datatype 'r pyval = PyStr string | PyObj 'r

type_synonym 'r pydict = "(string \<times> 'r pyval) list"

text \<open>The literal \<^verbatim>\<open>{"file": label, "response": ocr_response}\<close>.\<close>

definition ocr_record :: "string \<Rightarrow> 'r \<Rightarrow> 'r pydict" where
  "ocr_record label ocr_response = [(''file'', PyStr label), (''response'', PyObj ocr_response)]"

text \<open>
  \<^verbatim>\<open>client.process_document\<close>: a call to the remote service. It takes the state \<open>'w\<close>
  of the world outside the program and returns the next one with its result or the
  exception it raised.
\<close>

type_synonym ('w, 'r) client = "string \<Rightarrow> 'w \<Rightarrow> (exn + 'r) \<times> 'w"

definition process_url :: "('w, 'r) client \<Rightarrow> string \<Rightarrow> 'w \<Rightarrow> (exn + 'r pydict list) \<times> 'w" where
  "process_url client url w =
     (case client url w of
        (Inl e, w') \<Rightarrow> (Inl e, w')
      | (Inr ocr_response, w') \<Rightarrow> (Inr [ocr_record url ocr_response], w'))"

definition process_file :: "('w, 'r) client \<Rightarrow> string \<Rightarrow> 'w \<Rightarrow> (exn + 'r pydict list) \<times> 'w" where
  "process_file client file_path w =
     (case client file_path w of
        (Inl e, w') \<Rightarrow> (Inl e, w')
      | (Inr ocr_response, w') \<Rightarrow> (Inr [ocr_record file_path ocr_response], w'))"

definition get_files_in_directory :: "filesystem \<Rightarrow> string \<Rightarrow> exn + string list" where
  "get_files_in_directory fs directory_path =
     (case listdir fs directory_path of
        Inl e \<Rightarrow> Inl (Builtin e)
      | Inr names \<Rightarrow>
          Inr (map (os_path_join directory_path)
                 (filter (\<lambda>f. isfile fs (os_path_join directory_path f)) names)))"

definition filter_supported_files :: "string list \<Rightarrow> string list" where
  "filter_supported_files files = filter is_supported_file files"

text \<open>
  The loop of \<^verbatim>\<open>_process_directory\<close> over the supported files, with the list
  \<^verbatim>\<open>ocr_responses\<close> it appends to. An exception of the tool's family is caught and the
  loop goes on; any other exception leaves the loop.
\<close>

fun process_directory_loop ::
  "('w, 'r) client \<Rightarrow> string list \<Rightarrow> 'r pydict list \<Rightarrow> 'w \<Rightarrow> (exn + 'r pydict list) \<times> 'w" where
  "process_directory_loop client [] ocr_responses w = (Inr ocr_responses, w)"
| "process_directory_loop client (file_path # rest) ocr_responses w =
     (case client file_path w of
        (Inr ocr_response, w') \<Rightarrow>
          process_directory_loop client rest
            (ocr_responses @ [ocr_record (os_path_basename file_path) ocr_response]) w'
      | (Inl e, w') \<Rightarrow>
          if is_OCRToolError e then process_directory_loop client rest ocr_responses w'
          else (Inl e, w'))"

definition process_directory ::
  "filesystem \<Rightarrow> ('w, 'r) client \<Rightarrow> string \<Rightarrow> 'w \<Rightarrow> (exn + 'r pydict list) \<times> 'w" where
  "process_directory fs client directory_path w =
     (case get_files_in_directory fs directory_path of
        Inl e \<Rightarrow> (Inl e, w)
      | Inr files \<Rightarrow>
          (let supported_files = filter_supported_files files in
           if supported_files = [] then (Inr [], w)
           else process_directory_loop client supported_files [] w))"

text \<open>The statements of \<^verbatim>\<open>process_documents\<close> inside its \<^verbatim>\<open>try\<close>.\<close>

definition process_documents_try ::
  "filesystem \<Rightarrow> ('w, 'r) client \<Rightarrow> string \<Rightarrow> 'w \<Rightarrow> (exn + 'r pydict list) \<times> 'w" where
  "process_documents_try fs client input_path_str w =
     (if is_url input_path_str then process_url client input_path_str w
      else if isfile fs input_path_str then process_file client input_path_str w
      else if isdir fs input_path_str then process_directory fs client input_path_str w
      else (Inl (InvalidInputError
                  (''Invalid input path: '' @ input_path_str @ ''. Must be a file, directory, or URL.'')), w))"

text \<open>
  \<^verbatim>\<open>process_documents\<close>: the two handlers of the \<^verbatim>\<open>try\<close>. An exception of the tool's
  family is raised again as it is, any other is replaced by an \<open>OCRToolError\<close>.
\<close>

definition process_documents ::
  "filesystem \<Rightarrow> ('w, 'r) client \<Rightarrow> string \<Rightarrow> 'w \<Rightarrow> (exn + 'r pydict list) \<times> 'w" where
  "process_documents fs client input_path_str w =
     (case process_documents_try fs client input_path_str w of
        (Inr ocr_responses, w') \<Rightarrow> (Inr ocr_responses, w')
      | (Inl e, w') \<Rightarrow>
          if is_OCRToolError e then (Inl e, w')
          else (Inl (OCRToolError (''Unexpected error processing documents: '' @ str_of e)), w'))"

section \<open>The Mistral client (utils/api_client.py)\<close>

text \<open>
  The Mistral SDK is a library outside the repository: its two calls are parameters.
  \<open>files_upload\<close> stands for opening the local file and uploading it, and returns the
  identifier of the uploaded file.
\<close>

datatype document = DocumentUrl string | FileId string

record ('w, 'r) mistral_sdk =
  ocr_process :: "document \<Rightarrow> 'w \<Rightarrow> (exn + 'r) \<times> 'w"
  files_upload :: "string \<Rightarrow> 'w \<Rightarrow> (exn + string) \<times> 'w"

text \<open>The inner \<^verbatim>\<open>try\<close> of \<^verbatim>\<open>process_document\<close>: every exception becomes a \<open>FileError\<close>.\<close>

definition upload_local_file ::
  "('w, 'r) mistral_sdk \<Rightarrow> string \<Rightarrow> 'w \<Rightarrow> (exn + string) \<times> 'w" where
  "upload_local_file sdk file_path_str w =
     (case files_upload sdk file_path_str w of
        (Inr uploaded_id, w') \<Rightarrow> (Inr uploaded_id, w')
      | (Inl (Builtin (FileNotFoundError m)), w') \<Rightarrow>
          (Inl (new_FileError (''File not found: '' @ file_path_str) file_path_str), w')
      | (Inl (Builtin (PermissionError m)), w') \<Rightarrow>
          (Inl (new_FileError (''Permission denied: '' @ file_path_str) file_path_str), w')
      | (Inl e, w') \<Rightarrow>
          (Inl (new_FileError (''Error reading file: '' @ str_of e) file_path_str), w'))"

definition process_document_try ::
  "('w, 'r) mistral_sdk \<Rightarrow> string \<Rightarrow> 'w \<Rightarrow> (exn + 'r) \<times> 'w" where
  "process_document_try sdk file_path_str w =
     (if is_url file_path_str then ocr_process sdk (DocumentUrl file_path_str) w
      else if \<not> is_supported_file file_path_str
      then (Inl (new_UnsupportedFileTypeError file_path_str), w)
      else (case upload_local_file sdk file_path_str w of
              (Inl e, w') \<Rightarrow> (Inl e, w')
            | (Inr uploaded_id, w') \<Rightarrow> ocr_process sdk (FileId uploaded_id) w'))"

text \<open>
  \<^verbatim>\<open>MistralClient.process_document\<close>: a \<open>FileError\<close> is raised again, every other
  exception becomes an \<open>APIError\<close>.
\<close>

definition process_document :: "('w, 'r) mistral_sdk \<Rightarrow> ('w, 'r) client" where
  "process_document sdk file_path_str w =
     (case process_document_try sdk file_path_str w of
        (Inr ocr_response, w') \<Rightarrow> (Inr ocr_response, w')
      | (Inl e, w') \<Rightarrow>
          if is_FileError e then (Inl e, w')
          else if sublist ''Mistral API'' (str_of e)
          then (Inl (APIError (''Mistral API error: '' @ str_of e)), w')
          else (Inl (APIError (''Unexpected error: '' @ str_of e)), w'))"

section \<open>The batch endpoint (api/app.py, api/models.py)\<close>





text \<open>\<^verbatim>\<open>get_ocr_service\<close>: the service over the Mistral client.\<close>

definition get_ocr_service ::
  "filesystem \<Rightarrow> ('w, 'r) mistral_sdk \<Rightarrow> string \<Rightarrow> 'w \<Rightarrow> (exn + 'r pydict list) \<times> 'w" where
  "get_ocr_service fs sdk = process_documents fs (process_document sdk)"

section \<open>The calls of one run\<close>

text \<open>
  The calls made one after the other on a list of arguments, by the directory loop
  (\<^verbatim>\<open>client.process_document(f)\<close>) or by the batch loop
  (\<^verbatim>\<open>ocr_service.process_documents(url)\<close>): the result of each call with the state it
  leaves, which the next call starts from.
\<close>

fun calls_in_turn :: "(string \<Rightarrow> 'w \<Rightarrow> 'a \<times> 'w) \<Rightarrow> string list \<Rightarrow> 'w \<Rightarrow> ('a \<times> 'w) list" where
  "calls_in_turn call [] w = []"
| "calls_in_turn call (x # xs) w = call x w # calls_in_turn call xs (snd (call x w))"

text \<open>
  A call fails when it raises; it is unexpected when what it raises is outside the
  tool's family. A call of the service counts for the batch when it returns a first
  record.
\<close>

definition call_failed :: "(exn + 'a) \<times> 'w \<Rightarrow> bool" where
  "call_failed c = isl (fst c)"

definition call_unexpected :: "(exn + 'a) \<times> 'w \<Rightarrow> bool" where
  "call_unexpected c = (case fst c of Inl e \<Rightarrow> \<not> is_OCRToolError e | Inr r \<Rightarrow> False)"


text \<open>The state after a list of calls made from \<open>w\<close>.\<close>

definition state_after :: "'w \<Rightarrow> ('a \<times> 'w) list \<Rightarrow> 'w" where
  "state_after w calls = last (w # map snd calls)"

text \<open>The supported files of a directory whose listing is \<open>names\<close>, as the service finds them.\<close>

definition supported_in :: "filesystem \<Rightarrow> string \<Rightarrow> string list \<Rightarrow> string list" where
  "supported_in fs directory_path names =
     filter_supported_files
       (map (os_path_join directory_path)
          (filter (\<lambda>f. isfile fs (os_path_join directory_path f)) names))"

text \<open>The label of a record: \<^verbatim>\<open>record["file"]\<close>.\<close>

definition label_of :: "'r pydict \<Rightarrow> 'r pyval option" where
  "label_of r = map_of r ''file''"

section \<open>Example environments\<close>

text \<open>
  A file system with the directories of the specification's scenarios, and remote
  services whose state is the number of calls made so far. In \<open>/tmp/notes\<close> the
  entry \<open>old.pdf\<close> is a directory; \<open>/tmp/locked\<close> cannot be listed.
\<close>

definition tmp_fs :: filesystem where
  "tmp_fs =
     \<lparr>isfile = (\<lambda>p. p \<in> set [''/tmp/mixed_dir/a.pdf'', ''/tmp/mixed_dir/b.txt'',
                               ''/tmp/mixed_dir/c.png'', ''/tmp/notes/readme.txt'',
                               ''/tmp/scan.PDF'']),
      isdir = (\<lambda>p. p \<in> set [''/tmp'', ''/tmp/mixed_dir'', ''/tmp/empty_dir'', ''/tmp/notes'',
                              ''/tmp/notes/old.pdf'', ''/tmp/locked'']),
      listdir = (\<lambda>p. if p = ''/tmp/mixed_dir'' then Inr [''a.pdf'', ''b.txt'', ''c.png'']
                      else if p = ''/tmp/empty_dir'' then Inr []
                      else if p = ''/tmp/notes'' then Inr [''readme.txt'', ''old.pdf'']
                      else if p = ''/tmp/notes/old.pdf'' then Inr []
                      else if p = ''/tmp'' then
                        Inr [''mixed_dir'', ''empty_dir'', ''notes'', ''locked'', ''scan.PDF'']
                      else if p = ''/tmp/locked'' then Inl (PermissionError ''Permission denied'')
                      else Inl (FileNotFoundError ''No such file or directory''))\<rparr>"

text \<open>A file system in which every name is both a regular file and a directory.\<close>

definition shadowing_fs :: filesystem where
  "shadowing_fs = \<lparr>isfile = (\<lambda>p. True), isdir = (\<lambda>p. True), listdir = (\<lambda>p. Inr [])\<rparr>"

definition counting_client :: "(string \<Rightarrow> exn + string) \<Rightarrow> (nat, string) client" where
  "counting_client answer p n = (answer p, Suc n)"

definition reads_all :: "string \<Rightarrow> exn + string" where
  "reads_all p = Inr (''text of '' @ p)"

definition rejects_a_pdf :: "string \<Rightarrow> exn + string" where
  "rejects_a_pdf p =
     (if p = ''/tmp/mixed_dir/a.pdf'' then Inl (APIError ''Unexpected error: timeout'')
      else Inr (''text of '' @ p))"

definition crashes_on_a_pdf :: "string \<Rightarrow> exn + string" where
  "crashes_on_a_pdf p =
     (if p = ''/tmp/mixed_dir/a.pdf'' then Inl (Builtin (OtherException ''boom''))
      else Inr (''text of '' @ p))"

text \<open>An SDK whose service answers the first request and refuses every later one.\<close>

definition rate_limited_sdk :: "(nat, string) mistral_sdk" where
  "rate_limited_sdk =
     \<lparr>ocr_process = (\<lambda>d n. (if n = 0 then Inr ''text''
                             else Inl (Builtin (OtherException ''429 Too Many Requests'')), Suc n)),
      files_upload = (\<lambda>p n. (Inr ''file-1'', n))\<rparr>"


section \<open>Paths and extensions\<close>

lemma str_lower_append: "str_lower (a @ b) = str_lower a @ str_lower b"
  by (simp add: str_lower_def)

lemma suffix_past_slash:
  assumes "CHR ''/'' \<notin> set ext"
  shows "suffix ext (a @ CHR ''/'' # b) \<longleftrightarrow> suffix ext b"
proof
  assume "suffix ext (a @ CHR ''/'' # b)"
  then obtain zs where "a @ CHR ''/'' # b = zs @ ext" by (auto simp: suffix_def)
  with assms show "suffix ext b"
    by (auto simp: append_eq_append_conv2 Cons_eq_append_conv suffix_def)
next
  assume "suffix ext b"
  then show "suffix ext (a @ CHR ''/'' # b)"
    by (simp add: suffix_appendI suffix_ConsI)
qed

lemma join_cases:
  "os_path_join d n = n \<or> (\<exists>d'. os_path_join d n = d' @ CHR ''/'' # n)"
proof (cases "prefix ''/'' n \<or> d = []")
  case True
  then show ?thesis by (auto simp: os_path_join_def)
next
  case False
  show ?thesis
  proof (cases "suffix ''/'' d")
    case True
    then obtain d' where "d = d' @ ''/''" by (auto simp: suffix_def)
    with False show ?thesis by (simp add: os_path_join_def)
  next
    case False
    with \<open>\<not> (prefix ''/'' n \<or> d = [])\<close> show ?thesis by (simp add: os_path_join_def)
  qed
qed

lemma supported_slash:
  "is_supported_file (d' @ CHR ''/'' # n) = is_supported_file n"
  by (simp add: is_supported_file_def SUPPORTED_EXTENSIONS_def str_lower_append suffix_past_slash
      str_lower_def char_lower_def)

lemma is_supported_file_join: "is_supported_file (os_path_join d n) = is_supported_file n"
  using join_cases[of d n] by (auto simp: supported_slash)

lemma basename_join:
  assumes "CHR ''/'' \<notin> set n"
  shows "os_path_basename (os_path_join d n) = n"
proof -
  have n: "takeWhile (\<lambda>c. c \<noteq> CHR ''/'') (rev n) = rev n"
    using assms by auto
  from join_cases[of d n] show ?thesis
  proof
    assume "os_path_join d n = n"
    with n show ?thesis by (simp add: os_path_basename_def del: takeWhile_eq_all_conv)
  next
    assume "\<exists>d'. os_path_join d n = d' @ CHR ''/'' # n"
    then obtain d' where "os_path_join d n = d' @ CHR ''/'' # n" ..
    moreover have "takeWhile (\<lambda>c. c \<noteq> CHR ''/'') (rev n @ CHR ''/'' # rev d') = rev n"
      using assms by (auto simp: takeWhile_tail)
    ultimately show ?thesis by (simp add: os_path_basename_def)
  qed
qed

section \<open>The directory loop\<close>

lemma length_calls_in_turn: "length (calls_in_turn client files w) = length files"
  by (induction files arbitrary: w) auto

lemma loop_returns:
  "\<forall>c \<in> set (calls_in_turn client files w). \<not> call_unexpected c \<Longrightarrow>
   process_directory_loop client files acc w =
     (Inr (acc @ map (\<lambda>(f, c). ocr_record (os_path_basename f) (projr (fst c)))
                   (filter (\<lambda>(f, c). \<not> call_failed c) (zip files (calls_in_turn client files w)))),
      state_after w (calls_in_turn client files w))"
proof (induction files arbitrary: acc w)
  case Nil
  then show ?case by (simp add: state_after_def)
next
  case (Cons f files)
  obtain res w' where c: "client f w = (res, w')" by (cases "client f w")
  show ?case
  proof (cases res)
    case (Inl e)
    with Cons.prems c have "is_OCRToolError e" by (simp add: call_unexpected_def)
    with Cons c Inl show ?thesis by (simp add: call_failed_def state_after_def)
  next
    case (Inr r)
    with Cons c show ?thesis by (simp add: call_failed_def state_after_def)
  qed
qed

lemma loop_returned:
  "process_directory_loop client files acc w = (Inr res, w') \<Longrightarrow>
   \<forall>c \<in> set (calls_in_turn client files w). \<not> call_unexpected c"
proof (induction files arbitrary: acc w)
  case Nil
  then show ?case by simp
next
  case (Cons f files)
  obtain r w1 where c: "client f w = (r, w1)" by (cases "client f w")
  show ?case
  proof (cases r)
    case (Inl e)
    with Cons c show ?thesis by (auto simp: call_unexpected_def split: if_splits)
  next
    case (Inr x)
    with Cons c show ?thesis by (auto simp: call_unexpected_def)
  qed
qed


section \<open>The dispatcher\<close>

lemma is_url_iff: "is_url p \<longleftrightarrow> prefix ''http://'' p \<or> prefix ''https://'' p"
  by (simp add: is_url_def URL_PREFIXES_def)

lemma supported_in_names:
  "supported_in fs d names =
     map (os_path_join d) (filter (\<lambda>n. isfile fs (os_path_join d n) \<and> is_supported_file n) names)"
  by (simp add: supported_in_def filter_supported_files_def filter_map o_def is_supported_file_join
      conj_commute)

lemma directory_branch:
  assumes "\<not> is_url d" "\<not> isfile fs d" "isdir fs d" "listdir fs d = Inr names"
  shows "process_documents_try fs client d w =
           process_directory_loop client (supported_in fs d names) [] w"
  using assms
  by (simp add: process_documents_try_def process_directory_def get_files_in_directory_def
      supported_in_def Let_def)

lemma loop_raises_unexpected:
  "process_directory_loop client files acc w = (Inl e, w') \<Longrightarrow> \<not> is_OCRToolError e"
proof (induction files arbitrary: acc w)
  case Nil
  then show ?case by simp
next
  case (Cons f files)
  obtain r w1 where c: "client f w = (r, w1)" by (cases "client f w")
  show ?case
  proof (cases r)
    case (Inl e')
    with Cons c show ?thesis by (auto split: if_splits)
  next
    case (Inr x)
    with Cons c show ?thesis by auto
  qed
qed

lemma process_directory_raises_unexpected:
  "process_directory fs client d w = (Inl e, w') \<Longrightarrow> \<not> is_OCRToolError e"
  by (auto simp: process_directory_def get_files_in_directory_def Let_def
      split: sum.splits if_splits dest: loop_raises_unexpected)

lemma process_documents_handlers:
  "process_documents_try fs client p w = (Inr rs, w') \<Longrightarrow>
     process_documents fs client p w = (Inr rs, w')"
  "process_documents_try fs client p w = (Inl e, w') \<Longrightarrow> is_OCRToolError e \<Longrightarrow>
     process_documents fs client p w = (Inl e, w')"
  "process_documents_try fs client p w = (Inl e, w') \<Longrightarrow> \<not> is_OCRToolError e \<Longrightarrow>
     process_documents fs client p w =
       (Inl (OCRToolError (''Unexpected error processing documents: '' @ str_of e)), w')"
  by (simp_all add: process_documents_def)

lemma process_documents_returned:
  "process_documents fs client p w = (Inr rs, w') \<Longrightarrow>
     process_documents_try fs client p w = (Inr rs, w')"
  by (auto simp: process_documents_def split: prod.splits sum.splits if_splits)

lemma process_document_raises:
  "process_document sdk p w = (Inl e, w') \<Longrightarrow> is_FileError e \<or> (\<exists>m. e = APIError m)"
  by (auto simp: process_document_def split: prod.splits sum.splits if_splits)


lemma process_url_raises:
  "process_url client p w = (Inl e, w') \<Longrightarrow> client p w = (Inl e, w')"
  by (auto simp: process_url_def split: prod.splits sum.splits)

lemma process_file_raises:
  "process_file client p w = (Inl e, w') \<Longrightarrow> client p w = (Inl e, w')"
  by (auto simp: process_file_def split: prod.splits sum.splits)

lemma invalid_input_raised:
  assumes "process_documents_try fs (process_document sdk) p w = (Inl (InvalidInputError m), w')"
  shows "\<not> is_url p \<and> \<not> isfile fs p \<and> \<not> isdir fs p"
proof -
  have c: "process_document sdk p w \<noteq> (Inl (InvalidInputError m), w')"
    using process_document_raises[of sdk p w "InvalidInputError m" w'] by auto
  have d: "process_directory fs (process_document sdk) p w \<noteq> (Inl (InvalidInputError m), w')"
    using process_directory_raises_unexpected[of fs "process_document sdk" p w "InvalidInputError m" w']
    by auto
  show ?thesis
    using assms c d
    by (auto simp: process_documents_try_def split: if_splits
        dest: process_url_raises process_file_raises)
qed

lemma neither_raises_invalid_input:
  "\<not> is_url p \<and> \<not> isfile fs p \<and> \<not> isdir fs p \<Longrightarrow>
   process_documents fs client p w =
     (Inl (InvalidInputError
            (''Invalid input path: '' @ p @ ''. Must be a file, directory, or URL.'')), w)"
  by (simp add: process_documents_def process_documents_try_def)

lemma loop_records:
  assumes "process_directory_loop client files [] w = (Inr rs, w')"
  shows "\<forall>r \<in> set rs. \<exists>f \<in> set files. \<exists>x. r = ocr_record (os_path_basename f) x"
proof -
  from loop_returned[OF assms] have "\<forall>c \<in> set (calls_in_turn client files w). \<not> call_unexpected c" .
  from loop_returns[OF this, of "[]"] assms
  have "rs = map (\<lambda>(f, c). ocr_record (os_path_basename f) (projr (fst c)))
                   (filter (\<lambda>(f, c). \<not> call_failed c) (zip files (calls_in_turn client files w)))"
    by simp
  then show ?thesis by (auto dest: set_zip_leftD)
qed

lemma zip_distinct_functional:
  "distinct xs \<Longrightarrow> (x, a) \<in> set (zip xs ys) \<Longrightarrow> (x, b) \<in> set (zip xs ys) \<Longrightarrow> a = b"
proof (induction xs arbitrary: ys)
  case Nil
  then show ?case by simp
next
  case (Cons z xs)
  then show ?case by (cases ys) (auto dest: set_zip_leftD)
qed

lemma length_filter_zip_snd:
  "length xs = length ys \<Longrightarrow>
   length (filter (\<lambda>(x, y). P y) (zip xs ys)) = length (filter P ys)"
  by (induction xs ys rule: list_induct2) auto

lemma directory_run_returns:
  assumes "\<not> is_url d" "\<not> isfile fs d" "isdir fs d" "listdir fs d = Inr names"
    and "\<forall>c \<in> set (calls_in_turn client (supported_in fs d names) w). \<not> call_unexpected c"
  shows "process_documents fs client d w =
     (Inr (map (\<lambda>(f, c). ocr_record (os_path_basename f) (projr (fst c)))
             (filter (\<lambda>(f, c). \<not> call_failed c)
                (zip (supported_in fs d names) (calls_in_turn client (supported_in fs d names) w)))),
      state_after w (calls_in_turn client (supported_in fs d names) w))"
  using directory_branch[OF assms(1-4), of client w] loop_returns[OF assms(5), of "[]"]
  by (simp add: process_documents_def)

lemma directory_run_returned:
  assumes "\<not> is_url d" "\<not> isfile fs d" "isdir fs d" "listdir fs d = Inr names"
    and "process_documents fs client d w = (Inr rs, w')"
  shows "\<forall>c \<in> set (calls_in_turn client (supported_in fs d names) w). \<not> call_unexpected c"
proof -
  from assms(5) have "process_documents_try fs client d w = (Inr rs, w')"
    by (rule process_documents_returned)
  with directory_branch[OF assms(1-4), of client w]
  have "process_directory_loop client (supported_in fs d names) [] w = (Inr rs, w')" by simp
  then show ?thesis by (rule loop_returned)
qed



section \<open>The batch loop\<close>







section \<open>Claims\<close>

text \<open>
  Claim C6. A directory input is a string that is not a URL and names a directory.
  When the listing of the directory holds no regular file with a supported extension,
  \<open>process_documents\<close> returns the empty sequence and raises nothing; the state is
  the one it started from, so the remote service was not called.
\<close>

theorem no_supported_files_gives_empty:
  assumes "\<not> is_url d" "\<not> isfile fs d" "isdir fs d" "listdir fs d = Inr names"
    and "\<forall>n \<in> set names. isfile fs (os_path_join d n) \<longrightarrow> \<not> is_supported_file n"
  shows "process_documents fs client d w = (Inr [], w)"
proof -
  from assms(5) have "supported_in fs d names = []"
    by (auto simp: supported_in_names filter_empty_conv)
  with directory_branch[OF assms(1-4)] have "process_documents_try fs client d w = (Inr [], w)"
    by simp
  then show ?thesis by (rule process_documents_handlers(1))
qed

theorem no_supported_files_gives_empty_witness:
  "isdir tmp_fs ''/tmp/notes''
   \<and> listdir tmp_fs ''/tmp/notes'' = Inr [''readme.txt'', ''old.pdf'']
   \<and> process_documents tmp_fs (counting_client crashes_on_a_pdf) ''/tmp/notes'' 0 = (Inr [], 0)
   \<and> process_documents tmp_fs (counting_client crashes_on_a_pdf) ''/tmp/empty_dir'' 0 = (Inr [], 0)"
proof -
  have fs: "isfile tmp_fs = (\<lambda>p. p \<in> set [''/tmp/mixed_dir/a.pdf'', ''/tmp/mixed_dir/b.txt'',
                               ''/tmp/mixed_dir/c.png'', ''/tmp/notes/readme.txt'',
                               ''/tmp/scan.PDF''])"
    "isdir tmp_fs ''/tmp/notes''" "isdir tmp_fs ''/tmp/empty_dir''"
    "listdir tmp_fs ''/tmp/notes'' = Inr [''readme.txt'', ''old.pdf'']"
    "listdir tmp_fs ''/tmp/empty_dir'' = Inr []"
    by (simp_all add: tmp_fs_def)
  have a: "\<not> is_url ''/tmp/notes''" "\<not> is_url ''/tmp/empty_dir''"
    by (simp_all add: is_url_iff)
  have b: "\<not> isfile tmp_fs ''/tmp/notes''" "\<not> isfile tmp_fs ''/tmp/empty_dir''"
    by (simp_all add: fs(1))
  have c: "\<forall>n \<in> set [''readme.txt'', ''old.pdf'']. isfile tmp_fs (os_path_join ''/tmp/notes'' n) \<longrightarrow> \<not> is_supported_file n"
    by code_simp
  have d: "\<forall>n \<in> set []. isfile tmp_fs (os_path_join ''/tmp/empty_dir'' n) \<longrightarrow> \<not> is_supported_file n"
    by simp
  show ?thesis
    using no_supported_files_gives_empty[OF a(1) b(1) fs(2) fs(4) c, of "counting_client crashes_on_a_pdf" 0]
      no_supported_files_gives_empty[OF a(2) b(2) fs(3) fs(5) d, of "counting_client crashes_on_a_pdf" 0]
    by (simp add: fs(2) fs(4))
qed

text \<open>
  Claim C3. A string that starts with \<open>http://\<close> or \<open>https://\<close> is a URL for
  \<open>is_url\<close>, and then the dispatcher takes the URL branch whatever the file system
  says of that name: its result is the same in every file system. The tests follow in
  the order URL, regular file, directory, and an \<open>InvalidInputError\<close> when none holds.
\<close>

theorem url_test_comes_first:
  "(is_url p \<longleftrightarrow> prefix ''http://'' p \<or> prefix ''https://'' p)
   \<and> (is_url p \<longrightarrow>
        process_documents_try fs client p w = process_url client p w
        \<and> process_documents fs client p w = process_documents fs' client p w)
   \<and> (\<not> is_url p \<and> isfile fs p \<longrightarrow>
        process_documents_try fs client p w = process_file client p w)
   \<and> (\<not> is_url p \<and> \<not> isfile fs p \<and> isdir fs p \<longrightarrow>
        process_documents_try fs client p w = process_directory fs client p w)
   \<and> (\<not> is_url p \<and> \<not> isfile fs p \<and> \<not> isdir fs p \<longrightarrow>
        process_documents_try fs client p w =
          (Inl (InvalidInputError
                 (''Invalid input path: '' @ p @ ''. Must be a file, directory, or URL.'')), w))"
  by (simp add: is_url_iff process_documents_try_def process_documents_def)

theorem url_test_comes_first_witness:
  "is_url ''https://example.com/doc.pdf''
   \<and> isfile shadowing_fs ''https://example.com/doc.pdf''
   \<and> isdir shadowing_fs ''https://example.com/doc.pdf''
   \<and> process_documents shadowing_fs (counting_client reads_all) ''https://example.com/doc.pdf'' 0 =
       (Inr [ocr_record ''https://example.com/doc.pdf'' ''text of https://example.com/doc.pdf''], 1)
   \<and> process_documents tmp_fs (counting_client reads_all) ''https://example.com/doc.pdf'' 0 =
       (Inr [ocr_record ''https://example.com/doc.pdf'' ''text of https://example.com/doc.pdf''], 1)
   \<and> \<not> is_url ''/tmp/scan.PDF''
   \<and> isfile shadowing_fs ''/tmp/scan.PDF'' \<and> isdir shadowing_fs ''/tmp/scan.PDF''
   \<and> process_documents_try shadowing_fs (counting_client reads_all) ''/tmp/scan.PDF'' 0 =
       (Inr [ocr_record ''/tmp/scan.PDF'' ''text of /tmp/scan.PDF''], 1)
   \<and> process_documents_try tmp_fs (counting_client reads_all) ''/tmp/empty_dir'' 0 = (Inr [], 0)
   \<and> process_documents_try tmp_fs (counting_client reads_all) ''/does/not/exist'' 0 =
       (Inl (InvalidInputError
              ''Invalid input path: /does/not/exist. Must be a file, directory, or URL.''), 0)"
proof -
  let ?c = "counting_client reads_all"
  let ?u = "''https://example.com/doc.pdf''"
  have u: "is_url ?u" "isfile shadowing_fs ?u" "isdir shadowing_fs ?u"
    by (simp_all add: is_url_iff shadowing_fs_def)
  have pu: "process_url ?c ?u 0 = (Inr [ocr_record ?u ''text of https://example.com/doc.pdf''], 1)"
    by (simp add: process_url_def counting_client_def reads_all_def)
  have f: "\<not> is_url ''/tmp/scan.PDF''" "isfile shadowing_fs ''/tmp/scan.PDF''"
    "isdir shadowing_fs ''/tmp/scan.PDF''"
    by (simp_all add: is_url_iff shadowing_fs_def)
  have pf: "process_file ?c ''/tmp/scan.PDF'' 0 =
      (Inr [ocr_record ''/tmp/scan.PDF'' ''text of /tmp/scan.PDF''], 1)"
    by (simp add: process_file_def counting_client_def reads_all_def)
  have d: "\<not> is_url ''/tmp/empty_dir''" "\<not> isfile tmp_fs ''/tmp/empty_dir''"
    "isdir tmp_fs ''/tmp/empty_dir''"
    by (simp_all add: is_url_iff tmp_fs_def)
  have pd: "process_directory tmp_fs ?c ''/tmp/empty_dir'' 0 = (Inr [], 0)"
    by (simp add: process_directory_def get_files_in_directory_def tmp_fs_def
        filter_supported_files_def)
  have n: "\<not> is_url ''/does/not/exist''" "\<not> isfile tmp_fs ''/does/not/exist''"
    "\<not> isdir tmp_fs ''/does/not/exist''"
    by (simp_all add: is_url_iff tmp_fs_def)
  have t: "process_documents_try shadowing_fs ?c ?u 0 = process_url ?c ?u 0"
    "process_documents shadowing_fs ?c ?u 0 = process_documents tmp_fs ?c ?u 0"
    using url_test_comes_first[of ?u shadowing_fs ?c 0 tmp_fs] u by simp_all
  have "process_documents shadowing_fs ?c ?u 0 =
      (Inr [ocr_record ?u ''text of https://example.com/doc.pdf''], 1)"
    using t(1) pu by (simp add: process_documents_def)
  moreover note t(2)
  moreover have "process_documents_try shadowing_fs ?c ''/tmp/scan.PDF'' 0 =
      process_file ?c ''/tmp/scan.PDF'' 0"
    using url_test_comes_first[of "''/tmp/scan.PDF''" shadowing_fs ?c 0 tmp_fs] f by simp
  moreover have "process_documents_try tmp_fs ?c ''/tmp/empty_dir'' 0 =
      process_directory tmp_fs ?c ''/tmp/empty_dir'' 0"
    using url_test_comes_first[of "''/tmp/empty_dir''" tmp_fs ?c 0 tmp_fs] d by simp
  moreover have "process_documents_try tmp_fs ?c ''/does/not/exist'' 0 =
       (Inl (InvalidInputError
              ''Invalid input path: /does/not/exist. Must be a file, directory, or URL.''), 0)"
    using url_test_comes_first[of "''/does/not/exist''" tmp_fs ?c 0 tmp_fs] n by simp
  ultimately show ?thesis
    using u f pf pd by simp
qed



text \<open>
  Claim C4. The service built by \<open>get_ocr_service\<close> (the dispatcher over the Mistral
  client, for any behaviour of the SDK) raises an \<open>InvalidInputError\<close> exactly when
  the input is not a URL, not an existing regular file and not an existing directory.
  For such an input the dispatcher raises it over every client, with the message of
  the source and without a call to the remote service.
\<close>

theorem invalid_input_error_iff:
  "((\<exists>m w'. get_ocr_service fs sdk p w = (Inl (InvalidInputError m), w'))
      \<longleftrightarrow> \<not> is_url p \<and> \<not> isfile fs p \<and> \<not> isdir fs p)
   \<and> (\<not> is_url p \<and> \<not> isfile fs p \<and> \<not> isdir fs p \<longrightarrow>
        process_documents fs client p w =
          (Inl (InvalidInputError
                 (''Invalid input path: '' @ p @ ''. Must be a file, directory, or URL.'')), w))"
proof -
  have "\<not> is_url p \<and> \<not> isfile fs p \<and> \<not> isdir fs p"
    if "get_ocr_service fs sdk p w = (Inl (InvalidInputError m), w')" for m w'
  proof -
    from that have "process_documents_try fs (process_document sdk) p w = (Inl (InvalidInputError m), w')"
      by (auto simp: get_ocr_service_def process_documents_def
          split: prod.splits sum.splits if_splits)
    then show ?thesis by (rule invalid_input_raised)
  qed
  moreover have "\<exists>m w'. get_ocr_service fs sdk p w = (Inl (InvalidInputError m), w')"
    if "\<not> is_url p \<and> \<not> isfile fs p \<and> \<not> isdir fs p"
    using neither_raises_invalid_input[OF that, of "process_document sdk"]
    by (simp add: get_ocr_service_def)
  ultimately show ?thesis using neither_raises_invalid_input[of p fs client w] by blast
qed

theorem invalid_input_error_iff_witness:
  "\<not> is_url ''/does/not/exist'' \<and> \<not> isfile tmp_fs ''/does/not/exist''
   \<and> \<not> isdir tmp_fs ''/does/not/exist''
   \<and> get_ocr_service tmp_fs rate_limited_sdk ''/does/not/exist'' 0 =
       (Inl (InvalidInputError
              ''Invalid input path: /does/not/exist. Must be a file, directory, or URL.''), 0)
   \<and> (\<exists>m w'. get_ocr_service tmp_fs rate_limited_sdk ''/does/not/exist'' 0 =
         (Inl (InvalidInputError m), w'))
   \<and> \<not> (\<exists>m w'. get_ocr_service tmp_fs rate_limited_sdk ''/tmp/notes/readme.txt'' 0 =
         (Inl (InvalidInputError m), w'))
   \<and> get_ocr_service tmp_fs rate_limited_sdk ''/tmp/notes/readme.txt'' 0 =
       (Inl (UnsupportedFileTypeError ''Unsupported file type (Path: /tmp/notes/readme.txt)''), 0)"
proof -
  have n: "\<not> is_url ''/does/not/exist''" "\<not> isfile tmp_fs ''/does/not/exist''"
    "\<not> isdir tmp_fs ''/does/not/exist''"
    by (simp_all add: is_url_iff tmp_fs_def)
  have f: "isfile tmp_fs ''/tmp/notes/readme.txt''"
    by (simp add: tmp_fs_def)
  have r: "get_ocr_service tmp_fs rate_limited_sdk ''/tmp/notes/readme.txt'' 0 =
       (Inl (UnsupportedFileTypeError ''Unsupported file type (Path: /tmp/notes/readme.txt)''), 0)"
    by code_simp
  note a = invalid_input_error_iff[of tmp_fs rate_limited_sdk "''/does/not/exist''" 0 "process_document rate_limited_sdk"]
  note b = invalid_input_error_iff[of tmp_fs rate_limited_sdk "''/tmp/notes/readme.txt''" 0 "process_document rate_limited_sdk"]
  from a n have "get_ocr_service tmp_fs rate_limited_sdk ''/does/not/exist'' 0 =
       (Inl (InvalidInputError
              ''Invalid input path: /does/not/exist. Must be a file, directory, or URL.''), 0)"
    by (simp add: get_ocr_service_def)
  moreover from a n have "\<exists>m w'. get_ocr_service tmp_fs rate_limited_sdk ''/does/not/exist'' 0 =
         (Inl (InvalidInputError m), w')"
    by blast
  moreover from b f have "\<not> (\<exists>m w'. get_ocr_service tmp_fs rate_limited_sdk ''/tmp/notes/readme.txt'' 0 =
         (Inl (InvalidInputError m), w'))"
    by blast
  ultimately show ?thesis using n r by blast
qed

text \<open>
  Claim C9. Every record that \<open>process_documents\<close> returns is a dictionary with the
  two keys \<open>file\<close> and \<open>response\<close>, in that order and no other. For a URL or a
  regular file the result is one record whose label is the input string itself (the
  path as given, not its last component); for a directory each record is labelled
  with the \<open>os_path_basename\<close> of the joined path of a listed regular file with a
  supported extension.
\<close>

theorem record_shape:
  assumes "process_documents fs client p w = (Inr rs, w')"
  shows "(\<forall>r \<in> set rs. map fst r = [''file'', ''response''])
     \<and> (is_url p \<or> isfile fs p \<longrightarrow>
          (\<exists>x. rs = [[(''file'', PyStr p), (''response'', PyObj x)]]))
     \<and> (\<not> is_url p \<and> \<not> isfile fs p \<longrightarrow>
          (\<exists>names. listdir fs p = Inr names \<and>
             (\<forall>r \<in> set rs. \<exists>n \<in> set names. \<exists>x.
                isfile fs (os_path_join p n) \<and> is_supported_file n \<and>
                r = [(''file'', PyStr (os_path_basename (os_path_join p n))),
                     (''response'', PyObj x)])))"
proof -
  from assms have t: "process_documents_try fs client p w = (Inr rs, w')"
    by (rule process_documents_returned)
  have single: "\<exists>x. rs = [[(''file'', PyStr p), (''response'', PyObj x)]]" if "is_url p \<or> isfile fs p"
    using t that
    by (auto simp: process_documents_try_def process_url_def process_file_def ocr_record_def
        split: if_splits prod.splits sum.splits)
  have dir: "\<exists>names. listdir fs p = Inr names \<and>
             (\<forall>r \<in> set rs. \<exists>n \<in> set names. \<exists>x.
                isfile fs (os_path_join p n) \<and> is_supported_file n \<and>
                r = [(''file'', PyStr (os_path_basename (os_path_join p n))),
                     (''response'', PyObj x)])"
    if np: "\<not> is_url p \<and> \<not> isfile fs p"
  proof -
    from t np have d: "isdir fs p" and pd: "process_directory fs client p w = (Inr rs, w')"
      by (auto simp: process_documents_try_def split: if_splits)
    from pd obtain names where l: "listdir fs p = Inr names"
      by (auto simp: process_directory_def get_files_in_directory_def split: sum.splits)
    from t directory_branch[of p fs names client w] np d l
    have "process_directory_loop client (supported_in fs p names) [] w = (Inr rs, w')"
      by simp
    from loop_records[OF this]
    have "\<forall>r \<in> set rs. \<exists>f \<in> set (supported_in fs p names). \<exists>x. r = ocr_record (os_path_basename f) x" .
    then have "\<forall>r \<in> set rs. \<exists>n \<in> set names. \<exists>x.
                isfile fs (os_path_join p n) \<and> is_supported_file n \<and>
                r = [(''file'', PyStr (os_path_basename (os_path_join p n))),
                     (''response'', PyObj x)]"
      by (fastforce simp: supported_in_names ocr_record_def)
    with l show ?thesis by blast
  qed
  from single dir have "\<forall>r \<in> set rs. map fst r = [''file'', ''response'']"
    by (cases "is_url p \<or> isfile fs p") fastforce+
  with single dir show ?thesis by blast
qed

theorem record_shape_witness:
  "process_documents tmp_fs (counting_client reads_all) ''https://example.com/doc.pdf'' 0 =
     (Inr [[(''file'', PyStr ''https://example.com/doc.pdf''),
            (''response'', PyObj ''text of https://example.com/doc.pdf'')]], 1)
   \<and> process_documents tmp_fs (counting_client reads_all) ''/tmp/scan.PDF'' 0 =
     (Inr [[(''file'', PyStr ''/tmp/scan.PDF''),
            (''response'', PyObj ''text of /tmp/scan.PDF'')]], 1)
   \<and> process_documents tmp_fs (counting_client reads_all) ''/tmp/mixed_dir'' 0 =
     (Inr [[(''file'', PyStr ''a.pdf''), (''response'', PyObj ''text of /tmp/mixed_dir/a.pdf'')],
           [(''file'', PyStr ''c.png''), (''response'', PyObj ''text of /tmp/mixed_dir/c.png'')]], 2)
   \<and> list_all (\<lambda>r. map fst r = [''file'', ''response''])
        [[(''file'', PyStr ''a.pdf''), (''response'', PyObj ''text of /tmp/mixed_dir/a.pdf'')],
         [(''file'', PyStr ''c.png''), (''response'', PyObj ''text of /tmp/mixed_dir/c.png'')]]
   \<and> (\<exists>x. [[(''file'', PyStr ''/tmp/scan.PDF''), (''response'', PyObj ''text of /tmp/scan.PDF'')]] =
            [[(''file'', PyStr ''/tmp/scan.PDF''), (''response'', PyObj x)]])"
proof -
  let ?c = "counting_client reads_all"
  have u: "process_documents tmp_fs ?c ''https://example.com/doc.pdf'' 0 =
     (Inr [[(''file'', PyStr ''https://example.com/doc.pdf''),
            (''response'', PyObj ''text of https://example.com/doc.pdf'')]], 1)"
    by code_simp
  have f: "process_documents tmp_fs ?c ''/tmp/scan.PDF'' 0 =
     (Inr [[(''file'', PyStr ''/tmp/scan.PDF''),
            (''response'', PyObj ''text of /tmp/scan.PDF'')]], 1)"
    by code_simp
  have d: "process_documents tmp_fs ?c ''/tmp/mixed_dir'' 0 =
     (Inr [[(''file'', PyStr ''a.pdf''), (''response'', PyObj ''text of /tmp/mixed_dir/a.pdf'')],
           [(''file'', PyStr ''c.png''), (''response'', PyObj ''text of /tmp/mixed_dir/c.png'')]], 2)"
    by code_simp
  have isf: "isfile tmp_fs ''/tmp/scan.PDF''" by (simp add: tmp_fs_def)
  from record_shape[OF d]
  have "list_all (\<lambda>r. map fst r = [''file'', ''response''])
        [[(''file'', PyStr ''a.pdf''), (''response'', PyObj ''text of /tmp/mixed_dir/a.pdf'')],
         [(''file'', PyStr ''c.png''), (''response'', PyObj ''text of /tmp/mixed_dir/c.png'')]]"
    by simp
  moreover from record_shape[OF f] isf
  have "\<exists>x. [[(''file'', PyStr ''/tmp/scan.PDF''), (''response'', PyObj ''text of /tmp/scan.PDF'')]] =
            [[(''file'', PyStr ''/tmp/scan.PDF''), (''response'', PyObj x)]]"
    by blast
  ultimately show ?thesis using u f d by blast
qed




text \<open>
  Claim C2. For a directory input whose processing returns, the length of the
  returned sequence is the number of listed names that are regular files and end,
  in lower case, with a supported extension, minus the number of those files whose
  external call failed. The sequence is exactly the records of the calls that did
  not fail, in the order of the listing; with a listing as \<^verbatim>\<open>os.listdir\<close> gives it
  (distinct names without a separator), the label of a file whose call failed is the
  label of no returned record.
\<close>

theorem directory_success_count:
  assumes "\<not> is_url d" "\<not> isfile fs d" "isdir fs d" "listdir fs d = Inr names"
    and "files = supported_in fs d names" and "calls = calls_in_turn client files w"
    and "process_documents fs client d w = (Inr rs, w')"
  shows "length rs =
           length (filter (\<lambda>n. isfile fs (os_path_join d n) \<and> is_supported_file n) names)
             - length (filter call_failed calls)
     \<and> rs = map (\<lambda>(f, c). ocr_record (os_path_basename f) (projr (fst c)))
              (filter (\<lambda>(f, c). \<not> call_failed c) (zip files calls))
     \<and> (distinct names \<and> (\<forall>n \<in> set names. CHR ''/'' \<notin> set n) \<longrightarrow>
          (\<forall>(f, c) \<in> set (zip files calls).
              call_failed c \<longrightarrow> Some (PyStr (os_path_basename f)) \<notin> label_of ` set rs))"
proof -
  have ok: "\<forall>c \<in> set (calls_in_turn client (supported_in fs d names) w). \<not> call_unexpected c"
    using assms(1-4,7) by (rule directory_run_returned)
  from directory_run_returns[OF assms(1-4) ok] assms(5-7)
  have rs: "rs = map (\<lambda>(f, c). ocr_record (os_path_basename f) (projr (fst c)))
              (filter (\<lambda>(f, c). \<not> call_failed c) (zip files calls))"
    by simp
  have len: "length files = length calls"
    using assms(6) by (simp add: length_calls_in_turn)
  have "length rs = length (filter (\<lambda>c. \<not> call_failed c) calls)"
    using rs length_filter_zip_snd[OF len, of "\<lambda>c. \<not> call_failed c"] by simp
  also have "\<dots> = length calls - length (filter call_failed calls)"
    using sum_length_filter_compl[of call_failed calls] by simp
  also have "length calls =
      length (filter (\<lambda>n. isfile fs (os_path_join d n) \<and> is_supported_file n) names)"
    using len assms(5) by (simp add: supported_in_names)
  finally have count: "length rs =
           length (filter (\<lambda>n. isfile fs (os_path_join d n) \<and> is_supported_file n) names)
             - length (filter call_failed calls)" .
  have labels: "\<forall>(f, c) \<in> set (zip files calls).
              call_failed c \<longrightarrow> Some (PyStr (os_path_basename f)) \<notin> label_of ` set rs"
    if wf: "distinct names \<and> (\<forall>n \<in> set names. CHR ''/'' \<notin> set n)"
  proof -
    have base: "map os_path_basename files =
        filter (\<lambda>n. isfile fs (os_path_join d n) \<and> is_supported_file n) names"
      using wf assms(5) by (auto simp: supported_in_names basename_join intro!: map_idI)
    with wf have db: "distinct (map os_path_basename files)" by simp
    then have df: "distinct files" by (rule distinct_map[THEN iffD1, THEN conjunct1])
    from db have inj: "inj_on os_path_basename (set files)" by (simp add: distinct_map)
    show ?thesis
    proof (clarify)
      fix f c r
      assume fc: "(f, c) \<in> set (zip files calls)" and failed: "call_failed c"
        and r: "r \<in> set rs" and lab: "Some (PyStr (os_path_basename f)) = label_of r"
      from r rs obtain f' c' where fc': "(f', c') \<in> set (zip files calls)"
        and nf: "\<not> call_failed c'" and r': "r = ocr_record (os_path_basename f') (projr (fst c'))"
        by auto
      from lab r' have "os_path_basename f = os_path_basename f'"
        by (simp add: label_of_def ocr_record_def)
      moreover from fc fc' have "f \<in> set files" "f' \<in> set files"
        by (auto dest: set_zip_leftD)
      ultimately have "f = f'" using inj by (auto dest: inj_onD)
      with fc fc' df have "c = c'" by (auto dest: zip_distinct_functional)
      with failed nf show False by simp
    qed
  qed
  from count rs labels show ?thesis by blast
qed

theorem directory_success_count_witness:
  "process_documents tmp_fs (counting_client rejects_a_pdf) ''/tmp/mixed_dir'' 0 =
       (Inr [ocr_record ''c.png'' ''text of /tmp/mixed_dir/c.png''], 2)
   \<and> length [ocr_record ''c.png'' ''text of /tmp/mixed_dir/c.png''] =
       length (filter (\<lambda>n. isfile tmp_fs (os_path_join ''/tmp/mixed_dir'' n) \<and> is_supported_file n)
                 [''a.pdf'', ''b.txt'', ''c.png''])
       - length (filter call_failed
           [(Inl (APIError ''Unexpected error: timeout''), 1::nat),
            (Inr ''text of /tmp/mixed_dir/c.png'', 2)])
   \<and> filter (\<lambda>n. isfile tmp_fs (os_path_join ''/tmp/mixed_dir'' n) \<and> is_supported_file n)
                 [''a.pdf'', ''b.txt'', ''c.png''] = [''a.pdf'', ''c.png'']
   \<and> call_failed (Inl (APIError ''Unexpected error: timeout'') :: exn + string, 1::nat)
   \<and> Some (PyStr ''a.pdf'') \<notin>
        label_of ` set [ocr_record ''c.png'' ''text of /tmp/mixed_dir/c.png'']"
proof -
  let ?d = "''/tmp/mixed_dir''"
  let ?names = "[''a.pdf'', ''b.txt'', ''c.png'']"
  let ?files = "[''/tmp/mixed_dir/a.pdf'', ''/tmp/mixed_dir/c.png'']"
  let ?calls = "[(Inl (APIError ''Unexpected error: timeout''), 1::nat),
            (Inr ''text of /tmp/mixed_dir/c.png'', 2)]"
  let ?rs = "[ocr_record ''c.png'' ''text of /tmp/mixed_dir/c.png'']"
  have d: "\<not> is_url ?d" "\<not> isfile tmp_fs ?d" "isdir tmp_fs ?d" "listdir tmp_fs ?d = Inr ?names"
    by (simp_all add: is_url_iff tmp_fs_def)
  have files: "?files = supported_in tmp_fs ?d ?names"
    by code_simp
  have calls: "?calls = calls_in_turn (counting_client rejects_a_pdf) ?files 0"
    by code_simp
  have run: "process_documents tmp_fs (counting_client rejects_a_pdf) ?d 0 = (Inr ?rs, 2)"
    by code_simp
  have sup: "filter (\<lambda>n. isfile tmp_fs (os_path_join ?d n) \<and> is_supported_file n) ?names
      = [''a.pdf'', ''c.png'']"
    by code_simp
  have wf: "distinct ?names \<and> (\<forall>n \<in> set ?names. CHR ''/'' \<notin> set n)"
    by simp
  have failed: "call_failed (Inl (APIError ''Unexpected error: timeout'') :: exn + string, 1::nat)"
    by (simp add: call_failed_def)
  have base: "os_path_basename ''/tmp/mixed_dir/a.pdf'' = ''a.pdf''"
    by (simp add: os_path_basename_def)
  note t = directory_success_count[OF d files calls run]
  from t have "length ?rs =
       length (filter (\<lambda>n. isfile tmp_fs (os_path_join ?d n) \<and> is_supported_file n) ?names)
       - length (filter call_failed ?calls)"
    by blast
  moreover have "Some (PyStr ''a.pdf'') \<notin> label_of ` set ?rs"
  proof -
    from t wf have "\<forall>(f, c) \<in> set (zip ?files ?calls).
        call_failed c \<longrightarrow> Some (PyStr (os_path_basename f)) \<notin> label_of ` set ?rs"
      by blast
    moreover have "(''/tmp/mixed_dir/a.pdf'', (Inl (APIError ''Unexpected error: timeout''), 1))
        \<in> set (zip ?files ?calls)"
      by simp
    ultimately have "call_failed (Inl (APIError ''Unexpected error: timeout'') :: exn + string, 1::nat)
        \<longrightarrow> Some (PyStr (os_path_basename ''/tmp/mixed_dir/a.pdf'')) \<notin> label_of ` set ?rs"
      by blast
    with failed base show ?thesis by simp
  qed
  moreover note run sup failed
  ultimately show ?thesis by blast
qed






end
